theory Spec2Isabelle
  imports Complex_Main
begin

section \<open>JavaScript numbers\<close>

text \<open>
  The calculator works on the \<^verbatim>\<open>number\<close> type of TypeScript. A number is modelled
  as an exact real or one of the three non-finite values of IEEE 754. The rounding,
  overflow and underflow of double precision are outside the model: a finite result
  is the mathematical result of the operation.

  The two zeros of IEEE 754 are the single value \<open>Fin 0\<close>. Where the sign of a zero
  operand decides the result (a zero divisor, a zero base under a negative exponent)
  the zero is read as \<open>+0\<close>. In \<^verbatim>\<open>calculateMortgage\<close> every zero in such a place is
  the result of \<^verbatim>\<open>1 + r\<close> or of \<^verbatim>\<open>x - 1\<close> with operands that cancel, and that
  result is \<open>+0\<close> in IEEE arithmetic.
\<close>

datatype number = Fin real | PosInfinity | NegInfinity | NaN

fun negative :: "number \<Rightarrow> bool" where
  "negative (Fin a) = (a < 0)"
| "negative NegInfinity = True"
| "negative PosInfinity = False"
| "negative NaN = False"

definition infinity :: "bool \<Rightarrow> number" where
  "infinity neg = (if neg then NegInfinity else PosInfinity)"

text \<open>Unary minus, \<^verbatim>\<open>+\<close>, \<^verbatim>\<open>-\<close>, \<^verbatim>\<open>*\<close> and \<^verbatim>\<open>/\<close> on numbers.\<close>

fun js_neg :: "number \<Rightarrow> number" where
  "js_neg (Fin a) = Fin (- a)"
| "js_neg PosInfinity = NegInfinity"
| "js_neg NegInfinity = PosInfinity"
| "js_neg NaN = NaN"

fun js_add :: "number \<Rightarrow> number \<Rightarrow> number" where
  "js_add (Fin a) (Fin b) = Fin (a + b)"
| "js_add (Fin a) y = y"
| "js_add x (Fin b) = x"
| "js_add x y = (if x = y then x else NaN)"

definition js_sub :: "number \<Rightarrow> number \<Rightarrow> number" where
  "js_sub x y = js_add x (js_neg y)"

fun js_mul :: "number \<Rightarrow> number \<Rightarrow> number" where
  "js_mul (Fin a) (Fin b) = Fin (a * b)"
| "js_mul x y =
     (if x = NaN \<or> y = NaN \<or> x = Fin 0 \<or> y = Fin 0 then NaN
      else infinity (negative x \<noteq> negative y))"

fun js_div :: "number \<Rightarrow> number \<Rightarrow> number" where
  "js_div (Fin a) (Fin b) =
     (if b \<noteq> 0 then Fin (a / b) else if a = 0 then NaN else infinity (a < 0))"
| "js_div (Fin a) y = (if y = NaN then NaN else Fin 0)"
| "js_div x (Fin b) = (if x = NaN then NaN else infinity (negative x \<noteq> (b < 0)))"
| "js_div x y = NaN"


text \<open>
  \<^verbatim>\<open>Math.pow(base, exponent)\<close>, by the cases of \<^verbatim>\<open>Number::exponentiate\<close> in the
  ECMAScript specification. \<open>exponentiate\<close> is the part for a finite exponent other
  than zero.
\<close>

definition odd_integer :: "real \<Rightarrow> bool" where
  "odd_integer y = (y = of_int \<lfloor>y\<rfloor> \<and> odd \<lfloor>y\<rfloor>)"

fun exponentiate :: "number \<Rightarrow> real \<Rightarrow> number" where
  "exponentiate NaN y = NaN"
| "exponentiate PosInfinity y = (if 0 < y then PosInfinity else Fin 0)"
| "exponentiate NegInfinity y =
     (if 0 < y then (if odd_integer y then NegInfinity else PosInfinity) else Fin 0)"
| "exponentiate (Fin x) y =
     (if 0 < x then Fin (x powr y)
      else if x = 0 then (if 0 < y then Fin 0 else PosInfinity)
      else if y \<noteq> of_int \<lfloor>y\<rfloor> then NaN
      else if odd \<lfloor>y\<rfloor> then Fin (- (\<bar>x\<bar> powr y))
      else Fin (\<bar>x\<bar> powr y))"

fun Math_pow :: "number \<Rightarrow> number \<Rightarrow> number" where
  "Math_pow x NaN = NaN"
| "Math_pow x (Fin y) = (if y = 0 then Fin 1 else exponentiate x y)"
| "Math_pow NaN y = NaN"
| "Math_pow (Fin x) PosInfinity =
     (if 1 < \<bar>x\<bar> then PosInfinity else if \<bar>x\<bar> = 1 then NaN else Fin 0)"
| "Math_pow (Fin x) NegInfinity =
     (if 1 < \<bar>x\<bar> then Fin 0 else if \<bar>x\<bar> = 1 then NaN else PosInfinity)"
| "Math_pow x PosInfinity = PosInfinity"
| "Math_pow x NegInfinity = Fin 0"

text \<open>The operators are written as in the source.\<close>

instantiation number :: "{plus, minus, times, inverse}"
begin

definition plus_number :: "number \<Rightarrow> number \<Rightarrow> number" where
  "plus_number = js_add"

definition minus_number :: "number \<Rightarrow> number \<Rightarrow> number" where
  "minus_number = js_sub"

definition times_number :: "number \<Rightarrow> number \<Rightarrow> number" where
  "times_number = js_mul"

definition divide_number :: "number \<Rightarrow> number \<Rightarrow> number" where
  "divide_number = js_div"

definition inverse_number :: "number \<Rightarrow> number" where
  "inverse_number = js_div (Fin 1)"

instance ..

end


section \<open>The data model (\<^verbatim>\<open>types/mortgage.ts\<close>)\<close>

text \<open>
  The form hands finite numbers to the calculator (each field is parsed from digits
  and validated as a number), so the fields of the inputs are reals; the calculator
  reads them as numbers.
\<close>

record MortgageInputs =
  homePrice :: real
  downPayment :: real
  loanTerm :: real
  interestRate :: real
  propertyTax :: real
  homeInsurance :: real
  pmi :: real
  hoa :: real
  utilities :: real
  maintenance :: real

record MortgageCalculation =
  monthlyPrincipalAndInterest :: number
  monthlyPropertyTax :: number
  monthlyInsurance :: number
  monthlyPMI :: number
  monthlyHOA :: number
  monthlyUtilities :: number
  monthlyMaintenance :: number
  totalMonthlyPayment :: number
  totalLoanAmount :: number
  totalInterestPaid :: number


section \<open>The calculator (\<^verbatim>\<open>utils/mortgageCalculator.ts\<close>)\<close>

definition calculateMortgage :: "MortgageInputs \<Rightarrow> MortgageCalculation" where
  "calculateMortgage inputs =
    (let homePrice = Fin (homePrice inputs);
         downPayment = Fin (downPayment inputs);
         loanTerm = Fin (loanTerm inputs);
         interestRate = Fin (interestRate inputs);
         propertyTax = Fin (propertyTax inputs);
         homeInsurance = Fin (homeInsurance inputs);
         pmi = Fin (pmi inputs);
         hoa = Fin (hoa inputs);
         utilities = Fin (utilities inputs);
         maintenance = Fin (maintenance inputs);

         loanAmount = homePrice - downPayment;
         monthlyInterestRate = interestRate / Fin 100 / Fin 12;
         numberOfPayments = loanTerm * Fin 12;

         monthlyPrincipalAndInterest =
           (loanAmount *
             (monthlyInterestRate * Math_pow (Fin 1 + monthlyInterestRate) numberOfPayments)) /
           (Math_pow (Fin 1 + monthlyInterestRate) numberOfPayments - Fin 1);

         monthlyPropertyTax = (propertyTax / Fin 100 * homePrice) / Fin 12;
         monthlyInsurance = homeInsurance / Fin 12;
         monthlyPMI = (pmi / Fin 100 * loanAmount) / Fin 12;
         monthlyHOA = hoa;
         monthlyUtilities = utilities;
         monthlyMaintenance = maintenance;

         totalMonthlyPayment =
           monthlyPrincipalAndInterest +
           monthlyPropertyTax +
           monthlyInsurance +
           monthlyPMI +
           monthlyHOA +
           monthlyUtilities +
           monthlyMaintenance;

         totalInterestPaid =
           monthlyPrincipalAndInterest * numberOfPayments - loanAmount
     in \<lparr> monthlyPrincipalAndInterest = monthlyPrincipalAndInterest,
          monthlyPropertyTax = monthlyPropertyTax,
          monthlyInsurance = monthlyInsurance,
          monthlyPMI = monthlyPMI,
          monthlyHOA = monthlyHOA,
          monthlyUtilities = monthlyUtilities,
          monthlyMaintenance = monthlyMaintenance,
          totalMonthlyPayment = totalMonthlyPayment,
          totalLoanAmount = loanAmount,
          totalInterestPaid = totalInterestPaid \<rparr>)"

text \<open>
  The local constants of \<^verbatim>\<open>calculateMortgage\<close> (lines 17 to 19) and the divisor of
  the amortization quotient (line 24), as functions of the inputs.
\<close>

definition loanAmount :: "MortgageInputs \<Rightarrow> number" where
  "loanAmount inputs = Fin (homePrice inputs) - Fin (downPayment inputs)"

definition monthlyInterestRate :: "MortgageInputs \<Rightarrow> number" where
  "monthlyInterestRate inputs = Fin (interestRate inputs) / Fin 100 / Fin 12"

definition numberOfPayments :: "MortgageInputs \<Rightarrow> number" where
  "numberOfPayments inputs = Fin (loanTerm inputs) * Fin 12"

definition amortizationDivisor :: "MortgageInputs \<Rightarrow> number" where
  "amortizationDivisor inputs =
     Math_pow (Fin 1 + monthlyInterestRate inputs) (numberOfPayments inputs) - Fin 1"

text \<open>The default values of the form (\<^verbatim>\<open>app/page.tsx\<close>).\<close>

definition defaultValues :: MortgageInputs where
  "defaultValues =
     \<lparr> homePrice = 300000, downPayment = 60000, loanTerm = 30, interestRate = 7 / 2,
       propertyTax = 6 / 5, homeInsurance = 1200, pmi = 1 / 2, hoa = 250,
       utilities = 200, maintenance = 200 \<rparr>"



definition zeroRatePaidInFull :: MortgageInputs where
  "zeroRatePaidInFull = defaultValues\<lparr>downPayment := 300000, interestRate := 0\<rparr>"

text \<open>
  The amortization formula in the words of the specification (section 4.1, step 4),
  over numbers.
\<close>

definition amortizationFormula :: "number \<Rightarrow> number \<Rightarrow> number \<Rightarrow> number" where
  "amortizationFormula amount monthlyRate numPayments =
     amount * (monthlyRate * Math_pow (Fin 1 + monthlyRate) numPayments) /
     (Math_pow (Fin 1 + monthlyRate) numPayments - Fin 1)"


section \<open>Arithmetic on finite numbers\<close>

lemmas number_ops =
  plus_number_def minus_number_def times_number_def divide_number_def js_sub_def

lemma Fin_add: "Fin a + Fin b = Fin (a + b)"
  by (simp add: number_ops)

lemma Fin_sub: "Fin a - Fin b = Fin (a - b)"
  by (simp add: number_ops)

lemma Fin_mul: "Fin a * Fin b = Fin (a * b)"
  by (simp add: number_ops)

lemma Fin_div: "b \<noteq> 0 \<Longrightarrow> Fin a / Fin b = Fin (a / b)"
  by (simp add: number_ops)

lemma Fin_div_zero: "Fin 0 / Fin 0 = NaN"
  by (simp add: number_ops)

lemma Math_pow_pos: "0 < x \<Longrightarrow> y \<noteq> 0 \<Longrightarrow> Math_pow (Fin x) (Fin y) = Fin (x powr y)"
  by simp

lemma Math_pow_one: "Math_pow (Fin 1) (Fin y) = Fin 1"
  by simp

lemma loanAmount_Fin: "loanAmount i = Fin (homePrice i - downPayment i)"
  by (simp add: loanAmount_def Fin_sub)

lemma monthlyInterestRate_Fin: "monthlyInterestRate i = Fin (interestRate i / 100 / 12)"
  by (simp add: monthlyInterestRate_def Fin_div)

lemma numberOfPayments_Fin: "numberOfPayments i = Fin (loanTerm i * 12)"
  by (simp add: numberOfPayments_def Fin_mul)


section \<open>The fields of the result\<close>

lemma monthlyPrincipalAndInterest_eq:
  "monthlyPrincipalAndInterest (calculateMortgage i) =
     (loanAmount i *
       (monthlyInterestRate i *
          Math_pow (Fin 1 + monthlyInterestRate i) (numberOfPayments i))) /
     amortizationDivisor i"
  by (simp add: calculateMortgage_def Let_def loanAmount_def monthlyInterestRate_def
      numberOfPayments_def amortizationDivisor_def)

lemma totalLoanAmount_eq: "totalLoanAmount (calculateMortgage i) = loanAmount i"
  by (simp add: calculateMortgage_def Let_def loanAmount_def)

lemma monthlyPMI_eq:
  "monthlyPMI (calculateMortgage i) = (Fin (pmi i) / Fin 100 * loanAmount i) / Fin 12"
  by (simp add: calculateMortgage_def Let_def loanAmount_def)

lemma monthlyPMI_Fin:
  "monthlyPMI (calculateMortgage i) = Fin (pmi i / 100 * (homePrice i - downPayment i) / 12)"
  by (simp add: monthlyPMI_eq loanAmount_Fin Fin_div Fin_mul)

lemma totalInterestPaid_eq:
  "totalInterestPaid (calculateMortgage i) =
     monthlyPrincipalAndInterest (calculateMortgage i) * numberOfPayments i - loanAmount i"
  by (simp add: calculateMortgage_def Let_def loanAmount_def numberOfPayments_def)


section \<open>The annuity quotient over the reals\<close>

text \<open>
  For a positive monthly rate \<open>r\<close> and a positive number of payments \<open>n\<close> the
  quotient \<open>r * (1 + r) powr n / ((1 + r) powr n - 1)\<close> is the payment per unit of
  loan. It grows strictly with \<open>r\<close>, and \<open>n\<close> payments return at least the unit.
\<close>

lemma powr_gt_one:
  fixes b n :: real
  assumes "1 < b" "0 < n"
  shows "1 < b powr n"
  using assms powr_less_mono [of 0 n b] by simp





text \<open>With a positive rate and a positive term the amortization quotient is finite.\<close>

lemma growth_factor:
  assumes "0 < interestRate i" "0 < loanTerm i"
  shows "Math_pow (Fin 1 + monthlyInterestRate i) (numberOfPayments i) =
           Fin ((1 + interestRate i / 100 / 12) powr (loanTerm i * 12))"
    and "1 < (1 + interestRate i / 100 / 12) powr (loanTerm i * 12)"
proof -
  have r: "0 < interestRate i / 100 / 12"
    using assms by simp
  have n: "0 < loanTerm i * 12"
    using assms by simp
  have "Math_pow (Fin (1 + interestRate i / 100 / 12)) (Fin (loanTerm i * 12)) =
          Fin ((1 + interestRate i / 100 / 12) powr (loanTerm i * 12))"
    using r n by (intro Math_pow_pos) auto
  then show "Math_pow (Fin 1 + monthlyInterestRate i) (numberOfPayments i) =
          Fin ((1 + interestRate i / 100 / 12) powr (loanTerm i * 12))"
    by (simp only: monthlyInterestRate_Fin numberOfPayments_Fin Fin_add)
  show "1 < (1 + interestRate i / 100 / 12) powr (loanTerm i * 12)"
    using r n by (intro powr_gt_one) auto
qed

lemma amortizationDivisor_Fin:
  assumes "0 < interestRate i" "0 < loanTerm i"
  shows "amortizationDivisor i =
           Fin ((1 + interestRate i / 100 / 12) powr (loanTerm i * 12) - 1)"
  by (simp only: amortizationDivisor_def growth_factor(1) [OF assms] Fin_sub)

lemma monthlyPrincipalAndInterest_Fin:
  assumes "0 < interestRate i" "0 < loanTerm i"
  shows "monthlyPrincipalAndInterest (calculateMortgage i) =
           Fin ((homePrice i - downPayment i) *
                (interestRate i / 100 / 12 *
                   (1 + interestRate i / 100 / 12) powr (loanTerm i * 12) /
                 ((1 + interestRate i / 100 / 12) powr (loanTerm i * 12) - 1)))"
proof -
  have ne: "(1 + interestRate i / 100 / 12) powr (loanTerm i * 12) - 1 \<noteq> 0"
    using growth_factor(2) [OF assms] by simp
  have "monthlyPrincipalAndInterest (calculateMortgage i) =
          (loanAmount i *
            (monthlyInterestRate i *
               Fin ((1 + interestRate i / 100 / 12) powr (loanTerm i * 12)))) /
          Fin ((1 + interestRate i / 100 / 12) powr (loanTerm i * 12) - 1)"
    by (simp only: monthlyPrincipalAndInterest_eq amortizationDivisor_Fin [OF assms]
        growth_factor(1) [OF assms])
  also have "\<dots> =
          Fin ((homePrice i - downPayment i) *
               (interestRate i / 100 / 12 *
                  (1 + interestRate i / 100 / 12) powr (loanTerm i * 12)) /
               ((1 + interestRate i / 100 / 12) powr (loanTerm i * 12) - 1))"
    by (simp only: loanAmount_Fin monthlyInterestRate_Fin Fin_mul Fin_div [OF ne])
  finally show ?thesis
    by (simp only: times_divide_eq_right)
qed

text \<open>With a zero rate the quotient is \<^verbatim>\<open>0 / 0\<close>.\<close>

lemma zero_rate_divisor:
  assumes "interestRate i = 0"
  shows "amortizationDivisor i = Fin 0"
  using assms
  by (simp add: amortizationDivisor_def monthlyInterestRate_Fin numberOfPayments_Fin
      Fin_add Fin_sub)

lemma zero_rate_NaN:
  assumes "interestRate i = 0"
  shows "monthlyPrincipalAndInterest (calculateMortgage i) = NaN"
  using assms
  by (simp add: monthlyPrincipalAndInterest_eq zero_rate_divisor monthlyInterestRate_Fin
      numberOfPayments_Fin loanAmount_Fin Fin_add Fin_mul Fin_div_zero)


text \<open>The fields that depend on the loan amount, when the quotient is finite.\<close>

lemma totalInterestPaid_Fin:
  assumes "monthlyPrincipalAndInterest (calculateMortgage i) = Fin p"
  shows "totalInterestPaid (calculateMortgage i) =
           Fin (p * (loanTerm i * 12) - (homePrice i - downPayment i))"
  by (simp only: totalInterestPaid_eq assms numberOfPayments_Fin loanAmount_Fin Fin_mul Fin_sub)


lemma no_loan_no_payment:
  assumes "downPayment i = homePrice i" "0 < interestRate i" "0 < loanTerm i"
  shows "monthlyPrincipalAndInterest (calculateMortgage i) = Fin 0"
  using assms(1) by (simp add: monthlyPrincipalAndInterest_Fin [OF assms(2,3)])

lemma paid_in_full_positive_rate:
  assumes "downPayment i = homePrice i" "0 < interestRate i" "0 < loanTerm i"
  shows "totalLoanAmount (calculateMortgage i) = Fin 0"
    and "monthlyPrincipalAndInterest (calculateMortgage i) = Fin 0"
    and "monthlyPMI (calculateMortgage i) = Fin 0"
    and "totalInterestPaid (calculateMortgage i) = Fin 0"
proof -
  show "totalLoanAmount (calculateMortgage i) = Fin 0"
    using assms(1) by (simp add: totalLoanAmount_eq loanAmount_Fin)
  show p: "monthlyPrincipalAndInterest (calculateMortgage i) = Fin 0"
    using assms by (rule no_loan_no_payment)
  show "monthlyPMI (calculateMortgage i) = Fin 0"
    using assms(1) by (simp add: monthlyPMI_Fin)
  show "totalInterestPaid (calculateMortgage i) = Fin 0"
    using assms(1) by (simp add: totalInterestPaid_Fin [OF p])
qed


section \<open>The claims\<close>



text \<open>
  C2. For every input the principal-and-interest field is the amortization formula of
  the specification at \<open>loanAmount = homePrice - downPayment\<close>,
  \<open>monthlyRate = interestRate / 100 / 12\<close> and \<open>numPayments = loanTerm * 12\<close>.
\<close>

theorem principal_and_interest_is_amortization_formula:
  "monthlyPrincipalAndInterest (calculateMortgage i) =
     amortizationFormula
       (Fin (homePrice i) - Fin (downPayment i))
       (Fin (interestRate i) / Fin 100 / Fin 12)
       (Fin (loanTerm i) * Fin 12)"
  by (simp add: calculateMortgage_def Let_def amortizationFormula_def)

text \<open>
  C3. For every input the total monthly payment of the result is the sum of the seven
  monthly components of the same result, added in the order of the source.
\<close>

theorem total_is_sum_of_components:
  "totalMonthlyPayment (calculateMortgage i) =
     monthlyPrincipalAndInterest (calculateMortgage i) +
     monthlyPropertyTax (calculateMortgage i) +
     monthlyInsurance (calculateMortgage i) +
     monthlyPMI (calculateMortgage i) +
     monthlyHOA (calculateMortgage i) +
     monthlyUtilities (calculateMortgage i) +
     monthlyMaintenance (calculateMortgage i)"
  by (simp add: calculateMortgage_def Let_def)

text \<open>
  C4. For every input the total loan amount of the result is the home price minus the
  down payment.
\<close>

theorem totalLoanAmount_is_price_minus_down_payment:
  "totalLoanAmount (calculateMortgage i) = Fin (homePrice i - downPayment i)"
  by (simp add: totalLoanAmount_eq loanAmount_Fin)

text \<open>
  C5. For every input the monthly property tax is \<open>propertyTax / 100 * homePrice / 12\<close>,
  the monthly insurance is \<open>homeInsurance / 12\<close>, the monthly PMI is
  \<open>pmi / 100 * (homePrice - downPayment) / 12\<close>, and the HOA, utilities and maintenance
  amounts are the inputs unchanged.
\<close>

theorem other_monthly_components:
  "monthlyPropertyTax (calculateMortgage i) = Fin (propertyTax i / 100 * homePrice i / 12)
   \<and> monthlyInsurance (calculateMortgage i) = Fin (homeInsurance i / 12)
   \<and> monthlyPMI (calculateMortgage i) =
       Fin (pmi i / 100 * (homePrice i - downPayment i) / 12)
   \<and> monthlyHOA (calculateMortgage i) = Fin (hoa i)
   \<and> monthlyUtilities (calculateMortgage i) = Fin (utilities i)
   \<and> monthlyMaintenance (calculateMortgage i) = Fin (maintenance i)"
proof (intro conjI)
  show "monthlyPropertyTax (calculateMortgage i) = Fin (propertyTax i / 100 * homePrice i / 12)"
    by (simp add: calculateMortgage_def Let_def Fin_div Fin_mul)
  show "monthlyInsurance (calculateMortgage i) = Fin (homeInsurance i / 12)"
    by (simp add: calculateMortgage_def Let_def Fin_div)
  show "monthlyPMI (calculateMortgage i) =
       Fin (pmi i / 100 * (homePrice i - downPayment i) / 12)"
    by (rule monthlyPMI_Fin)
  show "monthlyHOA (calculateMortgage i) = Fin (hoa i)"
    by (simp add: calculateMortgage_def Let_def)
  show "monthlyUtilities (calculateMortgage i) = Fin (utilities i)"
    by (simp add: calculateMortgage_def Let_def)
  show "monthlyMaintenance (calculateMortgage i) = Fin (maintenance i)"
    by (simp add: calculateMortgage_def Let_def)
qed







text \<open>
  C8 at the input \<open>zeroRatePaidInFull\<close>: the down payment equals the home price, the
  loan amount and the monthly PMI are zero, but the principal-and-interest value and
  the total interest paid are \<^verbatim>\<open>NaN\<close>, not zero.
\<close>

theorem paid_in_full_at_zero_rate:
  "downPayment zeroRatePaidInFull = homePrice zeroRatePaidInFull
   \<and> totalLoanAmount (calculateMortgage zeroRatePaidInFull) = Fin 0
   \<and> monthlyPMI (calculateMortgage zeroRatePaidInFull) = Fin 0
   \<and> monthlyPrincipalAndInterest (calculateMortgage zeroRatePaidInFull) = NaN
   \<and> totalInterestPaid (calculateMortgage zeroRatePaidInFull) = NaN"
proof (intro conjI)
  have z: "interestRate zeroRatePaidInFull = 0"
    by (simp add: zeroRatePaidInFull_def)
  show "downPayment zeroRatePaidInFull = homePrice zeroRatePaidInFull"
    by (simp add: zeroRatePaidInFull_def defaultValues_def)
  show "totalLoanAmount (calculateMortgage zeroRatePaidInFull) = Fin 0"
    by (simp add: totalLoanAmount_eq loanAmount_Fin zeroRatePaidInFull_def defaultValues_def)
  show "monthlyPMI (calculateMortgage zeroRatePaidInFull) = Fin 0"
    by (simp add: monthlyPMI_Fin zeroRatePaidInFull_def defaultValues_def)
  show p: "monthlyPrincipalAndInterest (calculateMortgage zeroRatePaidInFull) = NaN"
    using z by (rule zero_rate_NaN)
  show "totalInterestPaid (calculateMortgage zeroRatePaidInFull) = NaN"
    by (simp add: totalInterestPaid_eq p numberOfPayments_Fin loanAmount_Fin number_ops)
qed



end
